theory Spec2Isabelle
  imports Complex_Main
begin

section \<open>Device models of the ignition circuit (sim/ignition.py, sim/diode.py)\<close>

text \<open>
  The scripts compute with Python floats. The embedding computes over the reals: every
  arithmetic operation is exact, and the three ways a float computation of the scripts can
  raise (a logarithm of a non-positive number, a square root of a negative number, a
  division by zero) are results of the model. Reading a name that no statement has bound
  yet and storing past the end of an array are the two other errors of the type.
\<close>

datatype py_error = ValueError | ZeroDivisionError | NameError | IndexError

subsection \<open>N-channel MOSFET\<close>

record NMOS =
  kn :: real
  Vt :: real

definition calc_drain_current :: "NMOS \<Rightarrow> real \<Rightarrow> real \<Rightarrow> real \<Rightarrow> real" where
  "calc_drain_current m vg vd vs =
     (let Vov = vg - vs - Vt m in
      if Vov < 0 then 0
      else if Vov < vd - vs then 0.5 * kn m * Vov\<^sup>2
      else kn m * (Vov * (vd - vs) - 0.5 * (vd - vs)\<^sup>2))"

definition calc_drain_current_sat :: "NMOS \<Rightarrow> real \<Rightarrow> real \<Rightarrow> real" where
  "calc_drain_current_sat m vg vs = 0.5 * kn m * (vg - vs - Vt m)\<^sup>2"

subsection \<open>Schottky diode\<close>

record Diode =
  I0 :: real
  alpha :: real

definition calc_current :: "Diode \<Rightarrow> real \<Rightarrow> real" where
  "calc_current d vf = I0 d * (exp (alpha d * vf) - 1)"

definition calc_currents :: "Diode \<Rightarrow> real list \<Rightarrow> real list" where
  "calc_currents d vfs = map (calc_current d) vfs"

text \<open>
  \<open>math.log( (I/self.I0) + 1 )/self.alpha\<close>: the quotient \<open>I/I0\<close> is formed first, then
  the logarithm, which raises on an argument that is not positive, then the division by
  \<open>alpha\<close>.
\<close>

definition calc_voltage :: "Diode \<Rightarrow> real \<Rightarrow> py_error + real" where
  "calc_voltage d i =
     (if I0 d = 0 then Inl ZeroDivisionError
      else if i / I0 d + 1 \<le> 0 then Inl ValueError
      else if alpha d = 0 then Inl ZeroDivisionError
      else Inr (ln (i / I0 d + 1) / alpha d))"

text \<open>The fitted model of sim/diode.py, applied to each sample voltage.\<close>

definition diode_equation :: "real list \<Rightarrow> real \<Rightarrow> real \<Rightarrow> real list" where
  "diode_equation vs a i0 = map (\<lambda>voltage. i0 * (exp (a * voltage) - 1)) vs"

subsection \<open>The devices of the script\<close>

definition mux_diode :: Diode where
  "mux_diode = \<lparr>I0 = 0.004197, alpha = 13.28\<rparr>"

definition drive_nmos :: NMOS where
  "drive_nmos = \<lparr>kn = 4.2, Vt = 1.0\<rparr>"

definition cont_nmos :: NMOS where
  "cont_nmos = \<lparr>kn = 0.159, Vt = 1.5\<rparr>"

definition Rp :: real where
  "Rp = 1"

definition Rcont :: real where
  "Rcont = 10000"

definition ERROR_THRESHOLD :: real where
  "ERROR_THRESHOLD = 0.01"

definition MAX_ITERATIONS :: nat where
  "MAX_ITERATIONS = 1000"

text \<open>\<open>np.linspace( 3.7, (3.7*4), 100 )\<close>: 100 points, the first 3.7 and the last 14.8.\<close>

definition input_voltages :: "real list" where
  "input_voltages = map (\<lambda>i. 3.7 + real i * ((3.7 * 4 - 3.7) / 99)) [0..<100]"

section \<open>The drive-current solver\<close>

record solver_state =
  error :: real
  current_actual :: real
  current_guess :: real
  num_iter :: nat
  Vd :: "real option"
  diode_VF :: "real option"

definition learn_rate :: real where
  "learn_rate = 0.01"

text \<open>
  The variables as set before the loop. \<open>Vd\<close> and \<open>diode_VF\<close> are module-level names
  that the loop body binds: they are unbound before the first sweep point and keep the
  values of the previous point after it.
\<close>

definition solver_init :: "real option \<Rightarrow> real option \<Rightarrow> solver_state" where
  "solver_init vd0 vf0 =
     \<lparr>error = 100, current_actual = 0.1, current_guess = 0.1, num_iter = 0,
      Vd = vd0, diode_VF = vf0\<rparr>"

definition solver_cond :: "solver_state \<Rightarrow> bool" where
  "solver_cond st \<longleftrightarrow> error st \<ge> ERROR_THRESHOLD \<and> num_iter st < MAX_ITERATIONS"

text \<open>One pass through the body of the while loop.\<close>

definition solver_body :: "real \<Rightarrow> solver_state \<Rightarrow> py_error + solver_state" where
  "solver_body voltage st =
     (case calc_voltage mux_diode (current_guess st) of
        Inl e \<Rightarrow> Inl e
      | Inr vf \<Rightarrow>
          (let vd = voltage - vf - current_guess st * Rp;
               ca = calc_drain_current drive_nmos 3.3 vd 0
           in if ca = 0 then Inl ZeroDivisionError
              else Inr \<lparr>error = \<bar>ca - current_guess st\<bar> / ca,
                        current_actual = ca,
                        current_guess = current_guess st + learn_rate * (ca - current_guess st),
                        num_iter = num_iter st + 1,
                        Vd = Some vd,
                        diode_VF = Some vf\<rparr>))"

function solver_loop :: "real \<Rightarrow> solver_state \<Rightarrow> py_error + solver_state" where
  "solver_loop voltage st =
     (if solver_cond st
      then (case solver_body voltage st of
              Inl e \<Rightarrow> Inl e
            | Inr st' \<Rightarrow> solver_loop voltage st')
      else Inr st)"
  by pat_completeness auto
termination
proof (relation "measure (\<lambda>(voltage, st). MAX_ITERATIONS - num_iter st)")
  show "wf (measure (\<lambda>(voltage, st). MAX_ITERATIONS - num_iter st))"
    by simp
next
  fix voltage :: real and st st' :: solver_state
  assume c: "solver_cond st" and b: "solver_body voltage st = Inr st'"
  from b have "num_iter st' = num_iter st + 1"
    by (auto simp: solver_body_def Let_def split: sum.splits if_splits)
  with c show "((voltage, st'), (voltage, st)) \<in> measure (\<lambda>(voltage, st). MAX_ITERATIONS - num_iter st)"
    by (auto simp: solver_cond_def)
qed

declare solver_loop.simps [simp del]

text \<open>
  The loop-head states of one sweep point: the state set up before the loop, and every
  state left by a pass that was entered because the loop condition held.
\<close>

inductive solver_reach :: "real \<Rightarrow> solver_state \<Rightarrow> bool" for voltage :: real where
  start: "solver_reach voltage (solver_init vd0 vf0)"
| pass: "solver_reach voltage st \<Longrightarrow> solver_cond st \<Longrightarrow> solver_body voltage st = Inr st'
           \<Longrightarrow> solver_reach voltage st'"

text \<open>
  The line printed after the loop: the failure message when the pass counter equals the cap,
  the convergence message with the pass count otherwise. (The line printed before the loop
  only echoes the battery voltage and is left out.)
\<close>

datatype report = Converged nat | FailedToConverge

definition solver_report :: "solver_state \<Rightarrow> report" where
  "solver_report st =
     (if num_iter st = MAX_ITERATIONS then FailedToConverge else Converged (num_iter st))"

subsection \<open>The sweep over the battery voltages\<close>

text \<open>
  The three result arrays, the module-level \<open>Vd\<close> and \<open>diode_VF\<close> as the last
  point left them, and the lines printed so far.
\<close>

record sweep_state =
  drive_Vds :: "real list"
  drive_currents :: "real list"
  diode_VFs :: "real list"
  last_Vd :: "real option"
  last_VF :: "real option"
  printed :: "report list"

text \<open>
  \<open>xs[i] = v\<close> on an array, and the three stores that end a sweep point, in the order
  of the script.
\<close>

definition store :: "real list \<Rightarrow> nat \<Rightarrow> real \<Rightarrow> py_error + real list" where
  "store xs i v = (if i < length xs then Inr (xs[i := v]) else Inl IndexError)"

definition record_results :: "nat \<Rightarrow> solver_state \<Rightarrow> sweep_state \<Rightarrow> py_error + sweep_state" where
  "record_results i st sw =
     (case Vd st of
        None \<Rightarrow> Inl NameError
      | Some vd \<Rightarrow>
          (case store (drive_Vds sw) i vd of
             Inl e \<Rightarrow> Inl e
           | Inr vds \<Rightarrow>
               (case store (drive_currents sw) i (current_guess st) of
                  Inl e \<Rightarrow> Inl e
                | Inr cs \<Rightarrow>
                    (case diode_VF st of
                       None \<Rightarrow> Inl NameError
                     | Some vf \<Rightarrow>
                         (case store (diode_VFs sw) i vf of
                            Inl e \<Rightarrow> Inl e
                          | Inr vfs \<Rightarrow>
                              Inr \<lparr>drive_Vds = vds, drive_currents = cs, diode_VFs = vfs,
                                   last_Vd = Some vd, last_VF = Some vf,
                                   printed = printed sw @ [solver_report st]\<rparr>)))))"

fun drive_sweep_from :: "nat \<Rightarrow> real list \<Rightarrow> sweep_state \<Rightarrow> py_error + sweep_state" where
  "drive_sweep_from i [] sw = Inr sw"
| "drive_sweep_from i (voltage # rest) sw =
     (case solver_loop voltage (solver_init (last_Vd sw) (last_VF sw)) of
        Inl e \<Rightarrow> Inl e
      | Inr st \<Rightarrow>
          (case record_results i st sw of
             Inl e \<Rightarrow> Inl e
           | Inr sw' \<Rightarrow> drive_sweep_from (i + 1) rest sw'))"

definition sweep_init :: "nat \<Rightarrow> sweep_state" where
  "sweep_init n =
     \<lparr>drive_Vds = replicate n 0, drive_currents = replicate n 0, diode_VFs = replicate n 0,
      last_Vd = None, last_VF = None, printed = []\<rparr>"

definition drive_sweep :: "py_error + sweep_state" where
  "drive_sweep = drive_sweep_from 0 input_voltages (sweep_init (length input_voltages))"

section \<open>The continuity signal\<close>

text \<open>
  One point of the second sweep, for a sensing transistor \<open>m\<close> and a pull-up resistor
  \<open>rc\<close>; the script runs it with \<open>cont_nmos\<close> and \<open>Rcont\<close>. The names are those of the
  loop's variables.
\<close>

definition cont_Vov :: "NMOS \<Rightarrow> real \<Rightarrow> real" where
  "cont_Vov m voltage = voltage - Vt m"

definition cont_current :: "NMOS \<Rightarrow> real \<Rightarrow> real" where
  "cont_current m voltage =
     (if cont_Vov m voltage < 0 then 0 else calc_drain_current_sat m voltage 0)"

definition cont_Vcont :: "NMOS \<Rightarrow> real \<Rightarrow> real \<Rightarrow> real" where
  "cont_Vcont m rc voltage = 3.3 - cont_current m voltage * rc"

definition cont_b :: "NMOS \<Rightarrow> real \<Rightarrow> real \<Rightarrow> real" where
  "cont_b m rc voltage = cont_Vov m voltage + 1 / (kn m * rc)"

definition cont_c :: "NMOS \<Rightarrow> real \<Rightarrow> real" where
  "cont_c m rc = 2 * 3.3 / (kn m * rc)"

definition cont_voltage :: "NMOS \<Rightarrow> real \<Rightarrow> real \<Rightarrow> py_error + real" where
  "cont_voltage m rc voltage =
     (if cont_Vov m voltage > cont_Vcont m rc voltage
      then (if kn m * rc = 0 then Inl ZeroDivisionError
            else if (cont_b m rc voltage)\<^sup>2 - cont_c m rc < 0 then Inl ValueError
            else Inr (cont_b m rc voltage - sqrt ((cont_b m rc voltage)\<^sup>2 - cont_c m rc)))
      else Inr (cont_Vcont m rc voltage))"

section \<open>Quantities of the solver's analysis\<close>

text \<open>
  \<open>mux_VF g\<close> is the forward voltage that \<open>calc_voltage\<close> returns for the mux diode at
  a guess \<open>g\<close> where it returns one, and \<open>drive_Vd voltage g\<close> the drain voltage that a
  pass of the loop body derives from it.
\<close>

definition mux_VF :: "real \<Rightarrow> real" where
  "mux_VF g = ln (g / I0 mux_diode + 1) / alpha mux_diode"

definition drive_Vd :: "real \<Rightarrow> real \<Rightarrow> real" where
  "drive_Vd voltage g = voltage - mux_VF g - g * Rp"

text \<open>
  The loop invariant: the guess stays at or above 0.05 A, the drain voltage it leads to is
  positive, and the pass counter has not passed its cap.
\<close>

definition drive_inv :: "real \<Rightarrow> solver_state \<Rightarrow> bool" where
  "drive_inv voltage st \<longleftrightarrow>
     0.05 \<le> current_guess st \<and> 0 < drive_Vd voltage (current_guess st)
     \<and> num_iter st \<le> MAX_ITERATIONS"

text \<open>What every state left by a pass of the body satisfies.\<close>

definition drive_passed :: "solver_state \<Rightarrow> bool" where
  "drive_passed st \<longleftrightarrow>
     1 \<le> num_iter st \<and> Vd st \<noteq> None \<and> diode_VF st \<noteq> None \<and> 0 < current_actual st
     \<and> \<bar>current_actual st - current_guess st\<bar> / current_actual st = (1 - learn_rate) * error st"

section \<open>Properties of the device models\<close>

text \<open>
  C3. Whatever the transistor parameters and the drain voltage, the drain current of
  \<open>calc_drain_current\<close> is exactly 0 when the overdrive voltage \<open>Vg - Vs - Vt\<close> is
  strictly negative.
\<close>

theorem calc_drain_current_cutoff:
  "vg - vs - Vt m < 0 \<Longrightarrow> calc_drain_current m vg vd vs = 0"
  by (simp add: calc_drain_current_def)

theorem calc_drain_current_cutoff_witness:
  "(0::real) - 0 - Vt drive_nmos < 0 \<and> calc_drain_current drive_nmos 0 5 0 = 0"
  using calc_drain_current_cutoff [of 0 0 drive_nmos 5]
  by (simp add: drive_nmos_def)

lemma calc_drain_current_min:
  "calc_drain_current m vg vd vs =
    (if vg - vs - Vt m < 0 then 0
     else kn m * ((vg - vs - Vt m) * min (vd - vs) (vg - vs - Vt m)
                  - 0.5 * (min (vd - vs) (vg - vs - Vt m))\<^sup>2))"
  by (simp add: calc_drain_current_def Let_def min_def power2_eq_square)

lemma calc_drain_current_max:
  assumes "0 \<le> vd - vs"
  shows "calc_drain_current m vg vd vs =
     kn m * (max (vg - vs - Vt m) 0 * min (vd - vs) (max (vg - vs - Vt m) 0)
             - 0.5 * (min (vd - vs) (max (vg - vs - Vt m) 0))\<^sup>2)"
  using assms by (simp add: calc_drain_current_def Let_def min_def max_def power2_eq_square)

text \<open>
  C7. At the boundary \<open>Vov = Vds\<close> between the two conducting regions the two branch
  formulas have the same value, which is the value \<open>calc_drain_current\<close> returns there,
  and \<open>calc_drain_current\<close> is a continuous function of the drain voltage, and of the
  gate voltage when \<open>Vds \<ge> 0\<close> (as it is wherever the boundary lies in a conducting
  region), so it has no jump across the boundary.
\<close>

theorem calc_drain_current_boundary:
  "(vg - vs - Vt m = vd - vs \<longrightarrow>
      0.5 * kn m * (vg - vs - Vt m)\<^sup>2
        = kn m * ((vg - vs - Vt m) * (vd - vs) - 0.5 * (vd - vs)\<^sup>2)
      \<and> (0 \<le> vg - vs - Vt m \<longrightarrow>
           calc_drain_current m vg vd vs = 0.5 * kn m * (vg - vs - Vt m)\<^sup>2))
   \<and> continuous_on UNIV (\<lambda>x. calc_drain_current m vg x vs)
   \<and> (0 \<le> vd - vs \<longrightarrow> continuous_on UNIV (\<lambda>x. calc_drain_current m x vd vs))"
proof -
  have agree: "0.5 * kn m * (vg - vs - Vt m)\<^sup>2
        = kn m * ((vg - vs - Vt m) * (vd - vs) - 0.5 * (vd - vs)\<^sup>2)"
    if e: "vg - vs - Vt m = vd - vs"
    unfolding e by (simp add: power2_eq_square)
  have val: "calc_drain_current m vg vd vs = 0.5 * kn m * (vg - vs - Vt m)\<^sup>2"
    if e: "vg - vs - Vt m = vd - vs" and n: "0 \<le> vg - vs - Vt m"
    using n unfolding calc_drain_current_def Let_def e by (simp add: power2_eq_square)
  have cont: "continuous_on UNIV (\<lambda>x. calc_drain_current m vg x vs)"
    unfolding calc_drain_current_min
    by (cases "vg - vs - Vt m < 0") (auto intro!: continuous_intros)
  have contg: "continuous_on UNIV (\<lambda>x. calc_drain_current m x vd vs)" if "0 \<le> vd - vs"
    using that by (simp only: calc_drain_current_max) (intro continuous_intros)
  from agree val cont contg show ?thesis by blast
qed

theorem calc_drain_current_boundary_witness:
  "(3.3::real) - 0 - Vt drive_nmos = 2.3 - 0
   \<and> 0.5 * kn drive_nmos * (3.3 - 0 - Vt drive_nmos)\<^sup>2
        = kn drive_nmos * ((3.3 - 0 - Vt drive_nmos) * (2.3 - 0) - 0.5 * (2.3 - 0)\<^sup>2)
   \<and> (0::real) \<le> 3.3 - 0 - Vt drive_nmos
   \<and> calc_drain_current drive_nmos 3.3 2.3 0 = 0.5 * kn drive_nmos * (3.3 - 0 - Vt drive_nmos)\<^sup>2
   \<and> continuous_on UNIV (\<lambda>x. calc_drain_current drive_nmos 3.3 x 0)
   \<and> (0::real) \<le> 2.3 - 0
   \<and> continuous_on UNIV (\<lambda>x. calc_drain_current drive_nmos x 2.3 0)"
proof -
  have b: "(3.3::real) - 0 - Vt drive_nmos = 2.3 - 0"
    by (simp add: drive_nmos_def)
  have n: "(0::real) \<le> 3.3 - 0 - Vt drive_nmos"
    by (simp add: drive_nmos_def)
  have d: "(0::real) \<le> 2.3 - 0"
    by simp
  from b n d calc_drain_current_boundary [of "3.3" 0 drive_nmos "2.3"]
  show ?thesis by blast
qed



text \<open>
  C5, as the code has it. For a diode with \<open>I0 > 0\<close> and \<open>alpha > 0\<close>,
  \<open>calc_voltage\<close> raises the logarithm's domain error exactly when \<open>I/I0 + 1 \<le> 0\<close>,
  which is exactly when \<open>I \<le> -I0\<close>, and returns \<open>ln (I/I0 + 1) / alpha\<close> otherwise:
  the currents that avoid the error are those with \<open>I > -I0\<close>.
\<close>

theorem calc_voltage_domain:
  assumes "0 < I0 d" and "0 < alpha d"
  shows "calc_voltage d i =
           (if i \<le> - I0 d then Inl ValueError else Inr (ln (i / I0 d + 1) / alpha d))
         \<and> (i / I0 d + 1 \<le> 0 \<longleftrightarrow> i \<le> - I0 d)"
  using assms by (auto simp: calc_voltage_def field_simps)

theorem calc_voltage_domain_witness:
  "0 < I0 mux_diode \<and> 0 < alpha mux_diode
   \<and> calc_voltage mux_diode (-1) = Inl ValueError
   \<and> calc_voltage mux_diode 1 = Inr (ln (1 / I0 mux_diode + 1) / alpha mux_diode)"
  using calc_voltage_domain [of mux_diode "-1"] calc_voltage_domain [of mux_diode 1]
  by (simp add: mux_diode_def)

text \<open>
  C5, at the boundary. The current \<open>I = -I0\<close> satisfies \<open>I \<ge> -I0\<close> and still makes the argument
  of the logarithm 0: \<open>calc_voltage\<close> raises there.
\<close>

theorem calc_voltage_boundary_raises:
  "0 < I0 mux_diode \<and> 0 < alpha mux_diode
   \<and> - I0 mux_diode \<le> - 0.004197
   \<and> (- 0.004197) / I0 mux_diode + 1 \<le> 0
   \<and> calc_voltage mux_diode (- 0.004197) = Inl ValueError"
  by (simp add: calc_voltage_def mux_diode_def)

text \<open>
  C8. For \<open>I0 > 0\<close> and \<open>alpha > 0\<close> the diode current is strictly increasing in the
  voltage, both as \<open>calc_current\<close> computes it and entry by entry in the list that
  \<open>diode_equation\<close> returns.
\<close>

theorem diode_current_strict_mono:
  assumes "0 < I0 d" and "0 < alpha d"
  shows "(v1 < v2 \<longrightarrow> calc_current d v1 < calc_current d v2)
         \<and> (j < length vs \<and> k < length vs \<and> vs ! j < vs ! k \<longrightarrow>
              diode_equation vs (alpha d) (I0 d) ! j < diode_equation vs (alpha d) (I0 d) ! k)"
  using assms by (simp add: calc_current_def diode_equation_def)

theorem diode_current_strict_mono_witness:
  "0 < I0 mux_diode \<and> 0 < alpha mux_diode \<and> (0.14::real) < 0.2
   \<and> calc_current mux_diode 0.14 < calc_current mux_diode 0.2
   \<and> (0::nat) < length [0.14, 0.2 :: real] \<and> (1::nat) < length [0.14, 0.2 :: real]
   \<and> [0.14, 0.2 :: real] ! 0 < [0.14, 0.2] ! 1
   \<and> diode_equation [0.14, 0.2] (alpha mux_diode) (I0 mux_diode) ! 0
       < diode_equation [0.14, 0.2] (alpha mux_diode) (I0 mux_diode) ! 1"
proof -
  have p: "0 < I0 mux_diode" "0 < alpha mux_diode"
    by (simp_all add: mux_diode_def)
  have l: "(0::nat) < length [0.14, 0.2 :: real]" "(1::nat) < length [0.14, 0.2 :: real]"
    "[0.14, 0.2 :: real] ! 0 < [0.14, 0.2] ! 1" "(0.14::real) < 0.2"
    by simp_all
  from diode_current_strict_mono [OF p, of "0.14" "0.2" 0 "[0.14, 0.2]" 1] p l
  show ?thesis by blast
qed

section \<open>Properties of the continuity computation\<close>

lemma cont_radicand_pos:
  assumes k: "0 < kn m" and r: "0 < rc"
    and sel: "cont_Vov m voltage > cont_Vcont m rc voltage"
  shows "0 < (cont_b m rc voltage)\<^sup>2 - cont_c m rc"
proof -
  define x where "x = cont_Vov m voltage"
  define k where "k = kn m * rc"
  have kpos: "0 < k" using assms by (simp add: k_def)
  have xnonneg: "0 \<le> x"
  proof (rule ccontr)
    assume "\<not> 0 \<le> x"
    then have "cont_Vcont m rc voltage = 3.3" "x < 0"
      by (simp_all add: cont_Vcont_def cont_current_def x_def)
    with sel show False by (simp add: x_def)
  qed
  then have cur: "cont_current m voltage = 0.5 * kn m * x\<^sup>2"
    by (simp add: cont_current_def calc_drain_current_sat_def x_def cont_Vov_def)
  from sel have "3.3 - 0.5 * k * x\<^sup>2 < x"
    by (simp add: cont_Vcont_def cur x_def k_def mult.assoc mult.commute mult.left_commute)
  then have "3.3 * 2 < 2 * x + k * x\<^sup>2"
    by simp
  then have "(3.3 * 2) / k < (2 * x + k * x\<^sup>2) / k"
    using kpos by (simp only: divide_strict_right_mono)
  also have "\<dots> = 2 * x / k + x\<^sup>2"
    using kpos by (simp add: field_simps)
  finally have main: "6.6 / k < 2 * x / k + x\<^sup>2"
    by simp
  have "(cont_b m rc voltage)\<^sup>2 - cont_c m rc = x\<^sup>2 + 2 * x / k + (1 / k)\<^sup>2 - 6.6 / k"
    by (simp add: cont_b_def cont_c_def x_def k_def power2_sum)
  moreover have "0 < (1 / k)\<^sup>2" using kpos by simp
  ultimately show ?thesis using main by linarith
qed



text \<open>
  C6. For \<open>kn > 0\<close> and \<open>Rcont > 0\<close>, whenever the quadratic branch is selected
  (\<open>Vov > Vcont\<close>) the radicand \<open>b\<^sup>2 - c\<close> is strictly positive, and the point returns
  the root instead of raising the square root's domain error.
\<close>

theorem cont_radicand_positive:
  assumes "0 < kn m" and "0 < rc"
    and "cont_Vov m voltage > cont_Vcont m rc voltage"
  shows "0 < (cont_b m rc voltage)\<^sup>2 - cont_c m rc
         \<and> cont_voltage m rc voltage
             = Inr (cont_b m rc voltage - sqrt ((cont_b m rc voltage)\<^sup>2 - cont_c m rc))"
  using assms cont_radicand_pos [of m rc voltage]
  by (auto simp: cont_voltage_def)

theorem cont_radicand_positive_witness:
  "0 < kn cont_nmos \<and> 0 < Rcont
   \<and> cont_Vov cont_nmos 3.7 > cont_Vcont cont_nmos Rcont 3.7
   \<and> 0 < (cont_b cont_nmos Rcont 3.7)\<^sup>2 - cont_c cont_nmos Rcont
   \<and> cont_voltage cont_nmos Rcont 3.7
       = Inr (cont_b cont_nmos Rcont 3.7
              - sqrt ((cont_b cont_nmos Rcont 3.7)\<^sup>2 - cont_c cont_nmos Rcont))"
proof -
  have p: "0 < kn cont_nmos" "0 < Rcont"
    by (simp_all add: cont_nmos_def Rcont_def)
  have s: "cont_Vov cont_nmos 3.7 > cont_Vcont cont_nmos Rcont 3.7"
    by (simp add: cont_Vov_def cont_Vcont_def cont_current_def calc_drain_current_sat_def
        power2_eq_square cont_nmos_def Rcont_def)
  from cont_radicand_positive [OF p s] p s show ?thesis
    by blast
qed

section \<open>The forward voltage of the mux diode at 0.1 A\<close>

text \<open>Partial sums of the exponential series bound \<open>exp\<close> on the non-negative reals.\<close>

lemma exp_taylor_lower:
  fixes z :: real
  assumes "0 \<le> z"
  shows "(\<Sum>m<n. z ^ m / fact m) \<le> exp z"
proof -
  obtain t where t: "exp z = (\<Sum>m<n. z ^ m / fact m) + (exp t / fact n) * z ^ n"
    using Maclaurin_exp_le [of z n] by blast
  have "0 \<le> (exp t / fact n) * z ^ n"
    using assms by simp
  with t show ?thesis by linarith
qed

lemma exp_taylor_upper:
  fixes z :: real
  assumes z: "0 \<le> z" and small: "z ^ n < fact n"
  shows "exp z \<le> (\<Sum>m<n. z ^ m / fact m) / (1 - z ^ n / fact n)"
proof -
  obtain t where tz: "\<bar>t\<bar> \<le> \<bar>z\<bar>"
    and t: "exp z = (\<Sum>m<n. z ^ m / fact m) + (exp t / fact n) * z ^ n"
    using Maclaurin_exp_le [of z n] by blast
  from tz z have "exp t \<le> exp z" by simp
  moreover have "0 \<le> z ^ n / fact n" using z by simp
  ultimately have "exp t * (z ^ n / fact n) \<le> exp z * (z ^ n / fact n)"
    by (rule mult_right_mono)
  with t have "exp z \<le> (\<Sum>m<n. z ^ m / fact m) + exp z * (z ^ n / fact n)"
    by simp
  then have "exp z * (1 - z ^ n / fact n) \<le> (\<Sum>m<n. z ^ m / fact m)"
    by (simp add: right_diff_distrib)
  moreover have "0 < 1 - z ^ n / fact n"
    using small by simp
  ultimately show ?thesis
    by (simp add: pos_le_divide_eq)
qed

lemma exp_series_8:
  "(\<Sum>m<8. z ^ m / fact m)
     = 1 + z + z^2 / 2 + z^3 / 6 + z^4 / 24 + z^5 / 120 + z^6 / 720 + z^7 / 5040"
  for z :: real
  by (simp add: eval_nat_numeral lessThan_Suc fact_numeral algebra_simps)

lemma exp_3212_lower: "104197 / 4197 < exp (3.212 :: real)"
proof -
  have "(104197 / 4197 :: real) < (\<Sum>m<8. (803/2000) ^ m / fact m) ^ 8"
    unfolding exp_series_8 by (simp add: power_divide)
  also have "\<dots> \<le> exp (803/2000) ^ 8"
    by (intro power_mono exp_taylor_lower sum_nonneg) simp_all
  also have "\<dots> = exp (of_nat 8 * (803/2000))"
    by (simp only: exp_of_nat_mult)
  also have "\<dots> = exp 3.212" by simp
  finally show ?thesis .
qed

lemma exp_32112_upper: "exp (3.2112 :: real) < 104197 / 4197"
proof -
  have "exp (3.2112 :: real) = exp (of_nat 8 * (4014/10000))" by simp
  also have "\<dots> = exp (4014/10000) ^ 8"
    by (simp only: exp_of_nat_mult)
  also have "\<dots> \<le> ((\<Sum>m<8. (4014/10000) ^ m / fact m) / (1 - (4014/10000) ^ 8 / fact 8)) ^ 8"
    by (intro power_mono exp_taylor_upper) (simp_all add: fact_numeral power_divide)
  also have "\<dots> < 104197 / 4197"
    unfolding exp_series_8 by (simp add: fact_numeral power_divide)
  finally show ?thesis .
qed

lemma mux_ln_bounds:
  "3.2112 < ln (0.1 / 0.004197 + 1 :: real)" "ln (0.1 / 0.004197 + 1 :: real) < 3.212"
proof -
  have x: "(0.1 / 0.004197 + 1 :: real) = 104197 / 4197"
    by simp
  have "ln (exp (3.2112 :: real)) < ln (104197 / 4197)"
    using exp_32112_upper by (simp only: ln_less_cancel_iff exp_gt_zero) 
  then show "3.2112 < ln (0.1 / 0.004197 + 1 :: real)"
    unfolding x by simp
  have "ln (104197 / 4197) < ln (exp (3.212 :: real))"
    using exp_3212_lower by (subst ln_less_cancel_iff) simp_all
  then show "ln (0.1 / 0.004197 + 1 :: real) < 3.212"
    unfolding x by simp
qed

lemma mux_voltage_value:
  "calc_voltage mux_diode 0.1 = Inr (ln (0.1 / 0.004197 + 1) / 13.28)"
  by (simp add: calc_voltage_def mux_diode_def)

text \<open>
  C9, as the code has it. For the mux diode (\<open>I0 = 0.004197\<close>, \<open>alpha = 13.28\<close>)
  \<open>calc_voltage\<close> at 0.1 A returns \<open>ln (0.1/0.004197 + 1) / 13.28\<close>, a value between
  0.2418 V and 0.2419 V.
\<close>

theorem mux_voltage_at_100mA:
  "calc_voltage mux_diode 0.1 = Inr (ln (0.1 / 0.004197 + 1) / 13.28)
   \<and> 0.2418 < ln (0.1 / 0.004197 + 1 :: real) / 13.28
   \<and> ln (0.1 / 0.004197 + 1 :: real) / 13.28 < 0.2419"
  using mux_voltage_value mux_ln_bounds by simp

text \<open>C9, against the quoted figure. The returned value is more than 0.0003 V above 0.2415 V.\<close>

theorem mux_voltage_not_2415:
  "calc_voltage mux_diode 0.1 = Inr (ln (0.1 / 0.004197 + 1) / 13.28)
   \<and> \<not> \<bar>ln (0.1 / 0.004197 + 1 :: real) / 13.28 - 0.2415\<bar> \<le> 0.0003"
  using mux_voltage_value mux_ln_bounds by simp

section \<open>Properties of the drive-current solver\<close>

subsection \<open>The drive transistor and the diode along the iteration\<close>

lemma drive_current_cases:
  "calc_drain_current drive_nmos 3.3 x 0
     = (if 2.3 < x then 11.109 else 4.2 * (2.3 * x - 0.5 * x\<^sup>2))"
  by (simp add: calc_drain_current_def drive_nmos_def power2_eq_square)

lemma drive_current_factor:
  "x \<le> 2.3 \<Longrightarrow> calc_drain_current drive_nmos 3.3 x 0 = x * (9.66 - 2.1 * x)"
  by (simp add: drive_current_cases power2_eq_square algebra_simps)

lemma drive_current_pos:
  assumes "0 < x"
  shows "0 < calc_drain_current drive_nmos 3.3 x 0"
proof (cases "2.3 < x")
  case True
  then show ?thesis by (simp add: drive_current_cases)
next
  case False
  then have "0 < 9.66 - 2.1 * x" by simp
  with assms have "0 < x * (9.66 - 2.1 * x)" by (rule mult_pos_pos)
  with False show ?thesis by (simp add: drive_current_factor)
qed

lemma drive_current_neg:
  assumes "x < 0"
  shows "calc_drain_current drive_nmos 3.3 x 0 < 0"
proof -
  from assms have "0 < 9.66 - 2.1 * x" by simp
  with assms have "x * (9.66 - 2.1 * x) < 0" by (rule mult_neg_pos)
  with assms show ?thesis by (simp add: drive_current_factor)
qed

lemma drive_current_zero: "calc_drain_current drive_nmos 3.3 0 0 = 0"
  by (simp add: drive_current_cases)

lemma drive_current_le:
  assumes "0 < x"
  shows "calc_drain_current drive_nmos 3.3 x 0 \<le> 9.66 * x"
proof (cases "2.3 < x")
  case True
  then show ?thesis by (simp add: drive_current_cases)
next
  case False
  have "0 \<le> 2.1 * (x * x)" by simp
  then have "x * (9.66 - 2.1 * x) \<le> 9.66 * x" by (simp add: algebra_simps)
  with False show ?thesis by (simp add: drive_current_factor)
qed

lemma drive_current_ge:
  assumes "0.04 \<le> x"
  shows "0.19 \<le> calc_drain_current drive_nmos 3.3 x 0"
proof (cases "2.3 < x")
  case True
  then show ?thesis by (simp add: drive_current_cases)
next
  case False
  then have "4.83 \<le> 9.66 - 2.1 * x" by simp
  moreover from assms have x: "0 \<le> x" by simp
  ultimately have "x * 4.83 \<le> x * (9.66 - 2.1 * x)" by (rule mult_left_mono)
  moreover from assms have "0.19 \<le> x * 4.83" by simp
  moreover from False have "calc_drain_current drive_nmos 3.3 x 0 = x * (9.66 - 2.1 * x)"
    by (simp add: drive_current_factor)
  ultimately show ?thesis by linarith
qed

lemma mux_VF_mono:
  assumes "0 \<le> g1" and "g1 \<le> g2"
  shows "mux_VF g1 \<le> mux_VF g2"
proof -
  have "0 < g1 / I0 mux_diode + 1" "g1 / I0 mux_diode + 1 \<le> g2 / I0 mux_diode + 1"
    using assms by (simp_all add: mux_diode_def divide_right_mono add_pos_nonneg)
  then have "ln (g1 / I0 mux_diode + 1) \<le> ln (g2 / I0 mux_diode + 1)"
    by simp
  then show ?thesis
    by (simp add: mux_VF_def mux_diode_def divide_right_mono)
qed

lemma mux_VF_step:
  assumes g: "0.05 \<le> g" and le: "g \<le> g'"
  shows "mux_VF g' - mux_VF g \<le> 1.39 * (g' - g)"
proof -
  define i0 :: real where "i0 = 0.004197"
  have i0: "I0 mux_diode = i0" "0 < i0" by (simp_all add: i0_def mux_diode_def)
  have p: "0 < g / i0 + 1" "0 < g' / i0 + 1"
    using g le i0 by (simp_all add: add_pos_nonneg i0_def)
  have gi: "0.054197 \<le> g + i0" using g by (simp add: i0_def)
  have "ln (g' / i0 + 1) - ln (g / i0 + 1) = ln ((g' / i0 + 1) / (g / i0 + 1))"
    using p by (simp add: ln_div)
  also have "(g' / i0 + 1) / (g / i0 + 1) = 1 + (g' - g) / (g + i0)"
  proof -
    have ne: "g + i0 \<noteq> 0" "i0 \<noteq> 0" using gi i0 by simp_all
    have "g' / i0 + 1 = (g' + i0) / i0" "g / i0 + 1 = (g + i0) / i0"
      using ne by (simp_all add: add_divide_distrib)
    then have "(g' / i0 + 1) / (g / i0 + 1) = (g' + i0) / (g + i0)"
      using ne by simp
    also have "\<dots> = ((g + i0) + (g' - g)) / (g + i0)" by simp
    also have "\<dots> = (g + i0) / (g + i0) + (g' - g) / (g + i0)"
      by (rule add_divide_distrib)
    also have "\<dots> = 1 + (g' - g) / (g + i0)"
      using ne by simp
    finally show ?thesis .
  qed
  also have "ln (1 + (g' - g) / (g + i0)) \<le> (g' - g) / (g + i0)"
    using le gi by (intro ln_add_one_self_le_self) simp
  also have "\<dots> \<le> (g' - g) / 0.054197"
    using le gi by (intro divide_left_mono) simp_all
  finally have "ln (g' / i0 + 1) - ln (g / i0 + 1) \<le> (g' - g) / 0.054197" .
  then have "(ln (g' / i0 + 1) - ln (g / i0 + 1)) / 13.28 \<le> (g' - g) / 0.054197 / 13.28"
    by (rule divide_right_mono) simp
  also have "\<dots> \<le> 1.39 * (g' - g)"
    using le by (simp add: field_simps)
  finally have "ln (g' / i0 + 1) / 13.28 - ln (g / i0 + 1) / 13.28 \<le> 1.39 * (g' - g)"
    by (simp only: diff_divide_distrib)
  moreover have "alpha mux_diode = 13.28" by (simp add: mux_diode_def)
  ultimately show ?thesis
    by (simp only: mux_VF_def i0(1))
qed

lemma mux_VF_value: "0 \<le> g \<Longrightarrow> calc_voltage mux_diode g = Inr (mux_VF g)"
  by (simp add: calc_voltage_def mux_VF_def mux_diode_def add_nonneg_pos not_le)

subsection \<open>The invariant and the exit of the loop\<close>

lemma solver_body_value:
  assumes "0 \<le> current_guess st"
    and "calc_drain_current drive_nmos 3.3 (drive_Vd voltage (current_guess st)) 0 \<noteq> 0"
  shows "solver_body voltage st =
    Inr \<lparr>error = \<bar>calc_drain_current drive_nmos 3.3 (drive_Vd voltage (current_guess st)) 0
                    - current_guess st\<bar>
                  / calc_drain_current drive_nmos 3.3 (drive_Vd voltage (current_guess st)) 0,
         current_actual = calc_drain_current drive_nmos 3.3 (drive_Vd voltage (current_guess st)) 0,
         current_guess = current_guess st + learn_rate *
            (calc_drain_current drive_nmos 3.3 (drive_Vd voltage (current_guess st)) 0
             - current_guess st),
         num_iter = num_iter st + 1,
         Vd = Some (drive_Vd voltage (current_guess st)),
         diode_VF = Some (mux_VF (current_guess st))\<rparr>"
  using assms by (simp add: solver_body_def mux_VF_value Let_def drive_Vd_def)

lemma guess_step_inv:
  assumes v: "mux_VF 0.1 + 0.1 < voltage"
    and g: "0.05 \<le> g" and vd: "0 < drive_Vd voltage g"
    and a: "a = calc_drain_current drive_nmos 3.3 (drive_Vd voltage g) 0"
    and g': "g' = g + learn_rate * (a - g)"
  shows "0.05 \<le> g' \<and> 0 < drive_Vd voltage g'"
proof -
  have apos: "0 < a"
    unfolding a using vd by (rule drive_current_pos)
  have ale: "a \<le> 9.66 * drive_Vd voltage g"
    unfolding a using vd by (rule drive_current_le)
  have g'eq: "g' = 0.99 * g + 0.01 * a"
    by (simp add: g' learn_rate_def field_simps)
  have lower: "0.05 \<le> g'"
  proof (cases "g < 0.06")
    case True
    with g have "mux_VF g \<le> mux_VF 0.1"
      by (intro mux_VF_mono) simp_all
    with v True have "0.04 \<le> drive_Vd voltage g"
      by (simp add: drive_Vd_def Rp_def)
    then have "0.19 \<le> a"
      unfolding a by (rule drive_current_ge)
    with True g show ?thesis by (simp add: g'eq)
  next
    case False
    with apos show ?thesis by (simp add: g'eq)
  qed
  have "0 < drive_Vd voltage g'"
  proof (cases "g' \<le> g")
    case True
    with lower have "mux_VF g' \<le> mux_VF g"
      by (intro mux_VF_mono) simp_all
    with True vd show ?thesis
      by (simp add: drive_Vd_def Rp_def)
  next
    case False
    then have "mux_VF g' - mux_VF g \<le> 1.39 * (g' - g)"
      using g by (intro mux_VF_step) simp_all
    then have "mux_VF g' - mux_VF g \<le> (139 / 100) * (g' - g)"
      by simp
    moreover have "g' - g \<le> (966 / 10000) * drive_Vd voltage g"
      using ale g by (simp add: g'eq)
    moreover have "drive_Vd voltage g' = drive_Vd voltage g - (g' - g) - (mux_VF g' - mux_VF g)"
      by (simp add: drive_Vd_def Rp_def)
    ultimately show ?thesis using vd by argo
  qed
  with lower show ?thesis by simp
qed

lemma solver_body_inv:
  assumes v: "mux_VF 0.1 + 0.1 < voltage"
    and inv: "drive_inv voltage st" and c: "solver_cond st"
  shows "\<exists>st'. solver_body voltage st = Inr st' \<and> drive_inv voltage st' \<and> drive_passed st'
           \<and> num_iter st' = num_iter st + 1"
proof -
  define g where "g = current_guess st"
  define a where "a = calc_drain_current drive_nmos 3.3 (drive_Vd voltage g) 0"
  define g' where "g' = g + learn_rate * (a - g)"
  from inv have g: "0.05 \<le> g" and vd: "0 < drive_Vd voltage g" and n: "num_iter st \<le> MAX_ITERATIONS"
    by (simp_all add: drive_inv_def g_def)
  from vd have apos: "0 < a"
    by (simp add: a_def drive_current_pos)
  from guess_step_inv [OF v g vd a_def g'_def]
  have step: "0.05 \<le> g'" "0 < drive_Vd voltage g'" by simp_all
  define st' where "st' = \<lparr>error = \<bar>a - g\<bar> / a, current_actual = a, current_guess = g',
      num_iter = num_iter st + 1, Vd = Some (drive_Vd voltage g), diode_VF = Some (mux_VF g)\<rparr>"
  have body: "solver_body voltage st = Inr st'"
    using g apos solver_body_value [of st voltage]
    by (simp add: st'_def g_def a_def g'_def)
  have inv': "drive_inv voltage st'"
    using step c by (simp add: drive_inv_def st'_def solver_cond_def)
  have "a - g' = (1 - learn_rate) * (a - g)"
    by (simp add: g'_def algebra_simps)
  then have "\<bar>a - g'\<bar> = \<bar>(1 - learn_rate) * (a - g)\<bar>"
    by (simp only:)
  also have "\<dots> = \<bar>1 - learn_rate\<bar> * \<bar>a - g\<bar>"
    by (rule abs_mult)
  also have "\<bar>1 - learn_rate\<bar> = 1 - learn_rate"
    by (simp add: learn_rate_def)
  finally have "\<bar>a - g'\<bar> = (1 - learn_rate) * \<bar>a - g\<bar>" .
  then have passed: "drive_passed st'"
    using apos by (simp add: drive_passed_def st'_def)
  from body inv' passed show ?thesis
    by (intro exI [of _ st']) (simp add: st'_def)
qed

lemma solver_loop_inv:
  assumes v: "mux_VF 0.1 + 0.1 < voltage"
  shows "drive_inv voltage st \<Longrightarrow> drive_passed st \<Longrightarrow>
         \<exists>st'. solver_loop voltage st = Inr st' \<and> \<not> solver_cond st'
                \<and> drive_inv voltage st' \<and> drive_passed st'"
  using v
proof (induction voltage st rule: solver_loop.induct)
  case (1 voltage st)
  show ?case
  proof (cases "solver_cond st")
    case False
    with "1.prems" show ?thesis
      by (subst solver_loop.simps) simp
  next
    case True
    from solver_body_inv [OF "1.prems"(3) "1.prems"(1) True]
    obtain st1 where b: "solver_body voltage st = Inr st1"
      and i: "drive_inv voltage st1" and p: "drive_passed st1"
      by blast
    from "1.IH" [OF True b i p "1.prems"(3)]
    obtain st' where "solver_loop voltage st1 = Inr st'" "\<not> solver_cond st'"
      "drive_inv voltage st'" "drive_passed st'"
      by blast
    moreover have "solver_loop voltage st = solver_loop voltage st1"
      using True b by (subst solver_loop.simps) simp
    ultimately show ?thesis by auto
  qed
qed

lemma solver_init_inv:
  assumes v: "mux_VF 0.1 + 0.1 < voltage"
  shows "drive_inv voltage (solver_init vd0 vf0)" "solver_cond (solver_init vd0 vf0)"
  using v
  by (simp_all add: drive_inv_def solver_init_def drive_Vd_def Rp_def solver_cond_def
      ERROR_THRESHOLD_def MAX_ITERATIONS_def)

lemma solver_loop_total:
  assumes v: "mux_VF 0.1 + 0.1 < voltage"
  shows "\<exists>st. solver_loop voltage (solver_init vd0 vf0) = Inr st \<and> \<not> solver_cond st
                \<and> drive_inv voltage st \<and> drive_passed st"
proof -
  from solver_body_inv [OF v solver_init_inv [OF v]]
  obtain st1 where b: "solver_body voltage (solver_init vd0 vf0) = Inr st1"
    and i: "drive_inv voltage st1" and p: "drive_passed st1"
    by blast
  have "solver_loop voltage (solver_init vd0 vf0) = solver_loop voltage st1"
    using solver_init_inv(2) [OF v] b by (subst solver_loop.simps) simp
  with solver_loop_inv [OF v i p] show ?thesis by simp
qed

lemma mux_VF_100mA: "0 \<le> mux_VF 0.1" "mux_VF 0.1 + 0.1 < 3.7"
proof -
  have x: "(0.1 / I0 mux_diode + 1 :: real) = 104197 / 4197"
    by (simp add: mux_diode_def)
  have "0 \<le> ln (104197 / 4197 :: real)"
    by simp
  then show "0 \<le> mux_VF 0.1"
    by (simp add: mux_VF_def x) (simp add: mux_diode_def)
  have "ln (104197 / 4197 :: real) \<le> 104197 / 4197 - 1"
    by (rule ln_le_minus_one) simp
  then have "ln (104197 / 4197 :: real) / 13.28 \<le> (104197 / 4197 - 1) / 13.28"
    by (rule divide_right_mono) simp
  also have "\<dots> < 3.6" by simp
  finally show "mux_VF 0.1 + 0.1 < 3.7"
    by (simp add: mux_VF_def x) (simp add: mux_diode_def)
qed

lemma input_voltages_ge: "v \<in> set input_voltages \<Longrightarrow> 3.7 \<le> v"
  by (auto simp: input_voltages_def)

lemma input_voltages_threshold: "v \<in> set input_voltages \<Longrightarrow> mux_VF 0.1 + 0.1 < v"
  using input_voltages_ge [of v] mux_VF_100mA(2) by linarith

lemma solver_exit_cases:
  assumes "\<not> solver_cond st" and "num_iter st \<le> MAX_ITERATIONS"
  shows "error st < ERROR_THRESHOLD \<and> num_iter st < MAX_ITERATIONS
           \<and> solver_report st = Converged (num_iter st)
         \<or> num_iter st = MAX_ITERATIONS \<and> solver_report st = FailedToConverge"
  using assms by (auto simp: solver_cond_def solver_report_def)

lemma solver_loop_exit:
  assumes v: "mux_VF 0.1 + 0.1 < voltage"
  shows "\<exists>st. solver_loop voltage (solver_init vd0 vf0) = Inr st
           \<and> 1 \<le> num_iter st \<and> num_iter st \<le> MAX_ITERATIONS
           \<and> 0 < current_actual st
           \<and> \<bar>current_actual st - current_guess st\<bar> / current_actual st
                = (1 - learn_rate) * error st
           \<and> Vd st \<noteq> None \<and> diode_VF st \<noteq> None
           \<and> (error st < ERROR_THRESHOLD \<and> num_iter st < MAX_ITERATIONS
                 \<and> solver_report st = Converged (num_iter st)
               \<or> num_iter st = MAX_ITERATIONS \<and> solver_report st = FailedToConverge)"
proof -
  from solver_loop_total [OF v, of vd0 vf0]
  obtain st where l: "solver_loop voltage (solver_init vd0 vf0) = Inr st"
    and c: "\<not> solver_cond st" and i: "drive_inv voltage st" and p: "drive_passed st"
    by blast
  from i have n: "num_iter st \<le> MAX_ITERATIONS"
    by (simp add: drive_inv_def)
  from solver_exit_cases [OF c n] l n p show ?thesis
    by (intro exI [of _ st]) (simp add: drive_passed_def)
qed

lemma solver_loop_init_indep:
  "solver_loop voltage (solver_init vd0 vf0) = solver_loop voltage (solver_init None None)"
proof -
  have "solver_body voltage (solver_init vd0 vf0) = solver_body voltage (solver_init None None)"
    by (simp add: solver_body_def solver_init_def Let_def split: sum.splits)
  moreover have "solver_cond (solver_init vd0 vf0)" "solver_cond (solver_init None None)"
    by (simp_all add: solver_cond_def solver_init_def ERROR_THRESHOLD_def MAX_ITERATIONS_def)
  ultimately show ?thesis
    by (simp add: solver_loop.simps [of voltage "solver_init vd0 vf0"]
        solver_loop.simps [of voltage "solver_init None None"])
qed

lemma drive_sweep_from_ok:
  assumes "\<forall>v \<in> set vs. mux_VF 0.1 + 0.1 < v"
    and "i + length vs \<le> length (drive_Vds sw)"
    and "i + length vs \<le> length (drive_currents sw)"
    and "i + length vs \<le> length (diode_VFs sw)"
    and "length (printed sw) = i"
  shows "\<exists>sw'. drive_sweep_from i vs sw = Inr sw'
           \<and> length (drive_currents sw') = length (drive_currents sw)
           \<and> length (printed sw') = i + length vs
           \<and> (\<forall>j<i. drive_currents sw' ! j = drive_currents sw ! j
                      \<and> printed sw' ! j = printed sw ! j)
           \<and> (\<forall>k<length vs. \<exists>st. solver_loop (vs ! k) (solver_init None None) = Inr st
                      \<and> drive_currents sw' ! (i + k) = current_guess st
                      \<and> printed sw' ! (i + k) = solver_report st)"
  using assms
proof (induction vs arbitrary: i sw)
  case Nil
  then show ?case by simp
next
  case (Cons v vs)
  from Cons.prems(1) have v: "mux_VF 0.1 + 0.1 < v" by simp
  from solver_loop_exit [OF v, of "last_Vd sw" "last_VF sw"]
  obtain st vd vf where l: "solver_loop v (solver_init (last_Vd sw) (last_VF sw)) = Inr st"
    and vd: "Vd st = Some vd" and vf: "diode_VF st = Some vf"
    by auto
  define sw1 where "sw1 = \<lparr>drive_Vds = (drive_Vds sw)[i := vd],
      drive_currents = (drive_currents sw)[i := current_guess st],
      diode_VFs = (diode_VFs sw)[i := vf], last_Vd = Some vd, last_VF = Some vf,
      printed = printed sw @ [solver_report st]\<rparr>"
  have r: "record_results i st sw = Inr sw1"
    using Cons.prems(2-4) vd vf by (simp add: record_results_def store_def sw1_def)
  have step: "drive_sweep_from i (v # vs) sw = drive_sweep_from (i + 1) vs sw1"
    using l r by simp
  have "\<exists>sw'. drive_sweep_from (i + 1) vs sw1 = Inr sw'
           \<and> length (drive_currents sw') = length (drive_currents sw1)
           \<and> length (printed sw') = (i + 1) + length vs
           \<and> (\<forall>j<i + 1. drive_currents sw' ! j = drive_currents sw1 ! j
                      \<and> printed sw' ! j = printed sw1 ! j)
           \<and> (\<forall>k<length vs. \<exists>st. solver_loop (vs ! k) (solver_init None None) = Inr st
                      \<and> drive_currents sw' ! ((i + 1) + k) = current_guess st
                      \<and> printed sw' ! ((i + 1) + k) = solver_report st)"
    using Cons.prems by (intro Cons.IH) (simp_all add: sw1_def)
  then obtain sw' where s: "drive_sweep_from (i + 1) vs sw1 = Inr sw'"
    and len: "length (drive_currents sw') = length (drive_currents sw1)"
      "length (printed sw') = (i + 1) + length vs"
    and old: "\<And>j. j < i + 1 \<Longrightarrow> drive_currents sw' ! j = drive_currents sw1 ! j
                      \<and> printed sw' ! j = printed sw1 ! j"
    and new: "\<And>k. k < length vs \<Longrightarrow> \<exists>st. solver_loop (vs ! k) (solver_init None None) = Inr st
                      \<and> drive_currents sw' ! ((i + 1) + k) = current_guess st
                      \<and> printed sw' ! ((i + 1) + k) = solver_report st"
    by blast
  have here: "drive_currents sw' ! i = current_guess st \<and> printed sw' ! i = solver_report st"
    using old [of i] Cons.prems(3,5) by (auto simp: sw1_def nth_append)
  have before: "drive_currents sw' ! j = drive_currents sw ! j \<and> printed sw' ! j = printed sw ! j"
    if "j < i" for j
    using old [of j] that Cons.prems(5) by (simp add: sw1_def nth_append)
  have l0: "solver_loop v (solver_init None None) = Inr st"
    using l solver_loop_init_indep [of v "last_Vd sw" "last_VF sw"] by simp
  have pts: "\<exists>st. solver_loop ((v # vs) ! k) (solver_init None None) = Inr st
                      \<and> drive_currents sw' ! (i + k) = current_guess st
                      \<and> printed sw' ! (i + k) = solver_report st"
    if "k < length (v # vs)" for k
  proof (cases k)
    case 0
    with l0 here show ?thesis by auto
  next
    case (Suc k')
    with that new [of k'] show ?thesis by simp
  qed
  from step s len before pts show ?case
    by (intro exI [of _ sw']) (simp add: sw1_def)
qed

subsection \<open>The exit of the loop on the sweep\<close>

lemma first_input_voltage: "3.7 \<in> set input_voltages" "input_voltages ! 0 = 3.7"
proof -
  have n: "length input_voltages = 100"
    by (simp add: input_voltages_def)
  show z: "input_voltages ! 0 = 3.7"
    by (simp add: input_voltages_def nth_map_upt)
  have "input_voltages ! 0 \<in> set input_voltages"
    by (rule nth_mem) (simp add: n)
  then show "3.7 \<in> set input_voltages" by (simp only: z)
qed

text \<open>
  C1. For every battery voltage of the 100-point sweep the solver loop returns, without
  raising, after at least 1 and at most 1000 passes. On exit either the relative error is
  below 0.01 and the point is reported as converged with the pass count, or the pass count
  is 1000 and the point is reported as not converged. The relative error of the final
  \<open>current_actual\<close> against the final \<open>current_guess\<close> is 0.99 times the \<open>error\<close>
  variable. The sweep itself returns: it records, for each of the 100 points, the last
  \<open>current_guess\<close> of that point's loop and that point's report, whichever report it is.
\<close>

theorem drive_solver_exit:
  "(\<forall>voltage \<in> set input_voltages.
      \<exists>st. solver_loop voltage (solver_init vd0 vf0) = Inr st
        \<and> 1 \<le> num_iter st \<and> num_iter st \<le> MAX_ITERATIONS
        \<and> 0 < current_actual st
        \<and> \<bar>current_actual st - current_guess st\<bar> / current_actual st
             = (1 - learn_rate) * error st
        \<and> (error st < ERROR_THRESHOLD \<and> num_iter st < MAX_ITERATIONS
              \<and> solver_report st = Converged (num_iter st)
            \<or> num_iter st = MAX_ITERATIONS \<and> solver_report st = FailedToConverge))
   \<and> (\<exists>sw. drive_sweep = Inr sw
          \<and> length (drive_currents sw) = 100 \<and> length (printed sw) = 100
          \<and> (\<forall>i<100. \<exists>st. solver_loop (input_voltages ! i) (solver_init None None) = Inr st
                 \<and> drive_currents sw ! i = current_guess st
                 \<and> printed sw ! i = solver_report st))"
proof (rule conjI)
  show "\<forall>voltage \<in> set input_voltages.
      \<exists>st. solver_loop voltage (solver_init vd0 vf0) = Inr st
        \<and> 1 \<le> num_iter st \<and> num_iter st \<le> MAX_ITERATIONS
        \<and> 0 < current_actual st
        \<and> \<bar>current_actual st - current_guess st\<bar> / current_actual st
             = (1 - learn_rate) * error st
        \<and> (error st < ERROR_THRESHOLD \<and> num_iter st < MAX_ITERATIONS
              \<and> solver_report st = Converged (num_iter st)
            \<or> num_iter st = MAX_ITERATIONS \<and> solver_report st = FailedToConverge)"
  proof
    fix voltage assume "voltage \<in> set input_voltages"
    then have "mux_VF 0.1 + 0.1 < voltage"
      by (rule input_voltages_threshold)
    from solver_loop_exit [OF this, of vd0 vf0]
    show "\<exists>st. solver_loop voltage (solver_init vd0 vf0) = Inr st
        \<and> 1 \<le> num_iter st \<and> num_iter st \<le> MAX_ITERATIONS
        \<and> 0 < current_actual st
        \<and> \<bar>current_actual st - current_guess st\<bar> / current_actual st
             = (1 - learn_rate) * error st
        \<and> (error st < ERROR_THRESHOLD \<and> num_iter st < MAX_ITERATIONS
              \<and> solver_report st = Converged (num_iter st)
            \<or> num_iter st = MAX_ITERATIONS \<and> solver_report st = FailedToConverge)"
      by blast
  qed
next
  have n: "length input_voltages = 100"
    by (simp add: input_voltages_def)
  have "\<exists>sw'. drive_sweep_from 0 input_voltages (sweep_init (length input_voltages)) = Inr sw'
           \<and> length (drive_currents sw')
               = length (drive_currents (sweep_init (length input_voltages)))
           \<and> length (printed sw') = 0 + length input_voltages
           \<and> (\<forall>j<0. drive_currents sw' ! j
                        = drive_currents (sweep_init (length input_voltages)) ! j
                      \<and> printed sw' ! j = printed (sweep_init (length input_voltages)) ! j)
           \<and> (\<forall>k<length input_voltages.
                 \<exists>st. solver_loop (input_voltages ! k) (solver_init None None) = Inr st
                      \<and> drive_currents sw' ! (0 + k) = current_guess st
                      \<and> printed sw' ! (0 + k) = solver_report st)"
    by (rule drive_sweep_from_ok) (simp_all add: input_voltages_threshold sweep_init_def)
  then show "\<exists>sw. drive_sweep = Inr sw
          \<and> length (drive_currents sw) = 100 \<and> length (printed sw) = 100
          \<and> (\<forall>i<100. \<exists>st. solver_loop (input_voltages ! i) (solver_init None None) = Inr st
                 \<and> drive_currents sw ! i = current_guess st
                 \<and> printed sw ! i = solver_report st)"
    unfolding drive_sweep_def n by (simp add: sweep_init_def)
qed

theorem drive_solver_exit_witness:
  "3.7 \<in> set input_voltages
   \<and> (\<exists>st. solver_loop 3.7 (solver_init None None) = Inr st
        \<and> 1 \<le> num_iter st \<and> num_iter st \<le> MAX_ITERATIONS
        \<and> 0 < current_actual st
        \<and> \<bar>current_actual st - current_guess st\<bar> / current_actual st
             = (1 - learn_rate) * error st
        \<and> (error st < ERROR_THRESHOLD \<and> num_iter st < MAX_ITERATIONS
              \<and> solver_report st = Converged (num_iter st)
            \<or> num_iter st = MAX_ITERATIONS \<and> solver_report st = FailedToConverge))
   \<and> (0::nat) < 100
   \<and> (\<exists>sw. drive_sweep = Inr sw
          \<and> length (drive_currents sw) = 100 \<and> length (printed sw) = 100
          \<and> (\<exists>st. solver_loop (input_voltages ! 0) (solver_init None None) = Inr st
                 \<and> drive_currents sw ! 0 = current_guess st
                 \<and> printed sw ! 0 = solver_report st))"
proof -
  note t = drive_solver_exit [of None None]
  from t first_input_voltage(1)
  have a: "\<exists>st. solver_loop 3.7 (solver_init None None) = Inr st
        \<and> 1 \<le> num_iter st \<and> num_iter st \<le> MAX_ITERATIONS
        \<and> 0 < current_actual st
        \<and> \<bar>current_actual st - current_guess st\<bar> / current_actual st
             = (1 - learn_rate) * error st
        \<and> (error st < ERROR_THRESHOLD \<and> num_iter st < MAX_ITERATIONS
              \<and> solver_report st = Converged (num_iter st)
            \<or> num_iter st = MAX_ITERATIONS \<and> solver_report st = FailedToConverge)"
    by blast
  from t obtain sw where sw: "drive_sweep = Inr sw"
    "length (drive_currents sw) = 100" "length (printed sw) = 100"
    and pts: "\<forall>i<100. \<exists>st. solver_loop (input_voltages ! i) (solver_init None None) = Inr st
                 \<and> drive_currents sw ! i = current_guess st
                 \<and> printed sw ! i = solver_report st"
    by blast
  from pts have "\<exists>st. solver_loop (input_voltages ! 0) (solver_init None None) = Inr st
                 \<and> drive_currents sw ! 0 = current_guess st
                 \<and> printed sw ! 0 = solver_report st"
    by simp
  with sw a first_input_voltage(1) show ?thesis
    by auto
qed

subsection \<open>A pass with a negative drain current\<close>

lemma solver_reach_inv:
  assumes v: "mux_VF 0.1 + 0.1 < voltage"
  shows "solver_reach voltage st \<Longrightarrow> drive_inv voltage st"
proof (induction rule: solver_reach.induct)
  case (start vd0 vf0)
  show ?case by (rule solver_init_inv(1) [OF v])
next
  case (pass st st')
  from solver_body_inv [OF v pass.IH pass.hyps(2)] pass.hyps(3)
  show ?case by auto
qed

lemma first_pass_low:
  assumes v: "voltage \<le> mux_VF 0.1 + 0.1"
    and g: "current_guess st = 0.1"
    and b: "solver_body voltage st = Inr st'"
  shows "current_actual st' < 0
         \<and> error st' = \<bar>current_actual st' - 0.1\<bar> / current_actual st'
         \<and> num_iter st' = num_iter st + 1"
proof -
  define vd where "vd = drive_Vd voltage 0.1"
  define ca where "ca = calc_drain_current drive_nmos 3.3 vd 0"
  from v have vd: "vd \<le> 0"
    by (simp add: vd_def drive_Vd_def Rp_def)
  have cv: "calc_voltage mux_diode 0.1 = Inr (mux_VF 0.1)"
    by (rule mux_VF_value) simp
  from b have nz: "ca \<noteq> 0"
    and st': "st' = \<lparr>error = \<bar>ca - 0.1\<bar> / ca, current_actual = ca,
        current_guess = 0.1 + learn_rate * (ca - 0.1), num_iter = num_iter st + 1,
        Vd = Some vd, diode_VF = Some (mux_VF 0.1)\<rparr>"
    by (auto simp: solver_body_def g cv Let_def ca_def vd_def drive_Vd_def split: if_splits)
  from nz have "vd \<noteq> 0"
    using drive_current_zero by (auto simp: ca_def)
  with vd have "vd < 0" by simp
  then have "ca < 0"
    unfolding ca_def by (rule drive_current_neg)
  then show ?thesis by (simp add: st')
qed

lemma negative_error:
  fixes ca :: real
  assumes "ca < 0"
  shows "\<bar>ca - 0.1\<bar> / ca < 0" "1 < \<bar>ca - 0.1\<bar> / \<bar>ca\<bar>"
proof -
  from assms have p: "0 < \<bar>ca - 0.1\<bar>" by simp
  from p assms show "\<bar>ca - 0.1\<bar> / ca < 0"
    by (rule divide_pos_neg)
  from assms have "\<bar>ca\<bar> < \<bar>ca - 0.1\<bar>" "0 < \<bar>ca\<bar>" by simp_all
  then show "1 < \<bar>ca - 0.1\<bar> / \<bar>ca\<bar>" by simp
qed

lemma solver_reach_low:
  assumes v: "voltage \<le> mux_VF 0.1 + 0.1"
  shows "solver_reach voltage st \<Longrightarrow>
         num_iter st = 0 \<and> current_guess st = 0.1 \<or> \<not> solver_cond st"
proof (induction rule: solver_reach.induct)
  case (start vd0 vf0)
  show ?case by (simp add: solver_init_def)
next
  case (pass st st')
  from pass.IH pass.hyps(2) have g: "current_guess st = 0.1" by simp
  from first_pass_low [OF v g pass.hyps(3)]
  have "current_actual st' < 0"
    "error st' = \<bar>current_actual st' - 0.1\<bar> / current_actual st'"
    by simp_all
  with negative_error(1) [of "current_actual st'"] have "error st' < 0" by simp
  then show ?case by (simp add: solver_cond_def ERROR_THRESHOLD_def)
qed

text \<open>
  C10. Take any pass of the solver loop, for any battery voltage, that the loop enters from
  a loop-head state it can reach and in which \<open>current_actual\<close> comes out strictly
  negative. Then the computed \<open>error\<close> is negative, the loop condition fails, the loop
  exits with the state of that pass, and the point is reported as converged, although the
  relative error taken against \<open>\<bar>current_actual\<bar>\<close> exceeds 1.
\<close>

theorem negative_current_exits:
  assumes r: "solver_reach voltage st" and c: "solver_cond st"
    and b: "solver_body voltage st = Inr st'"
    and neg: "current_actual st' < 0"
  shows "error st' < 0 \<and> \<not> solver_cond st' \<and> solver_loop voltage st = Inr st'
         \<and> solver_report st' = Converged (num_iter st')
         \<and> 1 < \<bar>current_actual st' - current_guess st\<bar> / \<bar>current_actual st'\<bar>"
proof -
  have v: "voltage \<le> mux_VF 0.1 + 0.1"
  proof (rule ccontr)
    assume "\<not> voltage \<le> mux_VF 0.1 + 0.1"
    then have v': "mux_VF 0.1 + 0.1 < voltage" by simp
    from solver_body_inv [OF v' solver_reach_inv [OF v' r] c] b
    have "0 < current_actual st'" by (auto simp: drive_passed_def)
    with neg show False by simp
  qed
  from solver_reach_low [OF v r] c have n: "num_iter st = 0" and g: "current_guess st = 0.1"
    by simp_all
  from first_pass_low [OF v g b]
  have e: "error st' = \<bar>current_actual st' - 0.1\<bar> / current_actual st'"
    and n': "num_iter st' = 1"
    by (simp_all add: n)
  from e negative_error(1) [OF neg] have err: "error st' < 0" by simp
  then have nc: "\<not> solver_cond st'"
    by (simp add: solver_cond_def ERROR_THRESHOLD_def)
  have "solver_loop voltage st = solver_loop voltage st'"
    using c b by (subst solver_loop.simps) simp
  also have "\<dots> = Inr st'"
    using nc by (subst solver_loop.simps) simp
  finally have l: "solver_loop voltage st = Inr st'" .
  have rep: "solver_report st' = Converged (num_iter st')"
    by (simp add: solver_report_def n' MAX_ITERATIONS_def)
  have "1 < \<bar>current_actual st' - current_guess st\<bar> / \<bar>current_actual st'\<bar>"
    unfolding g by (rule negative_error(2) [OF neg])
  with err nc l rep show ?thesis by simp
qed

theorem negative_current_exits_witness:
  "solver_reach 0 (solver_init None None) \<and> solver_cond (solver_init None None)
   \<and> (\<exists>st'. solver_body 0 (solver_init None None) = Inr st' \<and> current_actual st' < 0
         \<and> error st' < 0 \<and> \<not> solver_cond st'
         \<and> solver_loop 0 (solver_init None None) = Inr st'
         \<and> solver_report st' = Converged 1
         \<and> 1 < \<bar>current_actual st' - current_guess (solver_init None None)\<bar>
                 / \<bar>current_actual st'\<bar>)"
proof -
  have r: "solver_reach 0 (solver_init None None)"
    by (rule solver_reach.start)
  have c: "solver_cond (solver_init None None)"
    by (simp add: solver_cond_def solver_init_def ERROR_THRESHOLD_def MAX_ITERATIONS_def)
  have vd: "drive_Vd 0 0.1 < 0"
    using mux_VF_100mA(1) by (simp add: drive_Vd_def Rp_def)
  then have ca: "calc_drain_current drive_nmos 3.3 (drive_Vd 0 0.1) 0 < 0"
    by (rule drive_current_neg)
  then obtain st' where b: "solver_body 0 (solver_init None None) = Inr st'"
    and neg: "current_actual st' < 0" and n: "num_iter st' = 1"
    using solver_body_value [of "solver_init None None" 0]
    by (simp add: solver_init_def)
  from negative_current_exits [OF r c b neg] b neg n r c show ?thesis
    by auto
qed

end
